theory Spec2Isabelle
  imports Complex_Main
begin

section \<open>JavaScript values used by the components\<close>

text \<open>
  A JavaScript number. The components do no arithmetic on coordinates: they pass them on,
  test them with \<open>||\<close> and halve \<open>size\<close>. Finite doubles are read as reals.
\<close>

datatype jsnum = NaN | Num real | PosInfinity | NegInfinity

text \<open>
  An optional value is an \<open>option\<close>, and \<open>None\<close> is \<open>undefined\<close>. A number or a flag is
  never \<open>null\<close>. An endpoint and \<open>draggingId\<close> may be \<open>null\<close>; they are only read through
  \<open>?.\<close> and \<open>!\<close>, which treat \<open>null\<close> as \<open>undefined\<close>, so \<open>None\<close> stands for both there.

  Truthiness, as \<open>!\<close>, \<open>&&\<close>, \<open>||\<close> and \<open>? :\<close> test it: \<open>undefined\<close>, \<open>false\<close>, \<open>0\<close>,
  \<open>NaN\<close> and the empty string are falsy.
\<close>

definition truthy_num :: "jsnum option \<Rightarrow> bool" where
  "truthy_num v =
     (case v of
        None \<Rightarrow> False
      | Some NaN \<Rightarrow> False
      | Some (Num r) \<Rightarrow> r \<noteq> 0
      | Some PosInfinity \<Rightarrow> True
      | Some NegInfinity \<Rightarrow> True)"

definition truthy_bool :: "bool option \<Rightarrow> bool" where
  "truthy_bool v = (case v of None \<Rightarrow> False | Some b \<Rightarrow> b)"

definition truthy_string :: "string option \<Rightarrow> bool" where
  "truthy_string v = (case v of None \<Rightarrow> False | Some s \<Rightarrow> s \<noteq> [])"

text \<open>\<open>v || 0\<close> on a number that may be missing.\<close>

definition or_zero :: "jsnum option \<Rightarrow> jsnum option" where
  "or_zero v = (if truthy_num v then v else Some (Num 0))"

text \<open>\<open>size / 2\<close>: \<open>undefined / 2\<close> is \<open>NaN\<close>.\<close>

definition half :: "jsnum option \<Rightarrow> jsnum" where
  "half v =
     (case v of
        None \<Rightarrow> NaN
      | Some NaN \<Rightarrow> NaN
      | Some (Num r) \<Rightarrow> Num (r / 2)
      | Some PosInfinity \<Rightarrow> PosInfinity
      | Some NegInfinity \<Rightarrow> NegInfinity)"

datatype error = TypeError

section \<open>Line: props, store and springs\<close>

text \<open>
  \<open>Point3\<close> and \<open>EdgeVectors3\<close>. The source reads \<open>points.from?.x\<close>, so an endpoint may be
  missing; it reads \<open>z || 0\<close>, so a coordinate may be missing too.
\<close>

record Point3 =
  px :: "jsnum option"
  py :: "jsnum option"
  pz :: "jsnum option"

record EdgeVectors3 =
  from_pt :: "Point3 option"
  to_pt :: "Point3 option"

text \<open>
  \<open>LineProps\<close>. \<open>'f\<close> is the type of callback functions; every prop marked \<open>?\<close> in the
  interface is optional. (\<open>curved\<close> is declared required, but the component destructures it
  with a default, so it is read as optional.)
\<close>

record 'f LineProps =
  color :: "string option"
  size_prop :: "jsnum option"
  animated :: "bool option"
  id_prop :: string
  opacity :: "jsnum option"
  curved :: "bool option"
  points :: EdgeVectors3
  onClick :: "'f option"
  onActive :: "'f option"
  onContextMenu :: "'f option"
  onPointerOver :: "'f option"
  onPointerOut :: "'f option"

text \<open>\<open>Line.defaultProps\<close>: React fills these in where the prop is \<open>undefined\<close>.\<close>

definition defaultProps :: "'f LineProps \<Rightarrow> 'f LineProps" where
  "defaultProps p =
     p\<lparr> color := (case color p of None \<Rightarrow> Some ''#000'' | Some c \<Rightarrow> Some c),
        size_prop := (case size_prop p of None \<Rightarrow> Some (Num 1) | Some s \<Rightarrow> Some s),
        opacity := (case opacity p of None \<Rightarrow> Some (Num 1) | Some v \<Rightarrow> Some v),
        curved := (case curved p of None \<Rightarrow> Some False | Some b \<Rightarrow> Some b) \<rparr>"

text \<open>The destructuring default \<open>curved = false\<close>.\<close>

definition curved_or_default :: "'f LineProps \<Rightarrow> bool" where
  "curved_or_default p = (case curved p of None \<Rightarrow> False | Some b \<Rightarrow> b)"

text \<open>
  The shared store. \<open>Line\<close> reads \<open>draggingId\<close>; \<open>GraphScene\<close> reads \<open>graph\<close>, \<open>nodes\<close> and
  \<open>edges\<close>. Of a node and an edge only the \<open>id\<close> is read.
\<close>

record 'a InternalGraphNode =
  n_id :: string
  n_data :: 'a

record 'a InternalGraphEdge =
  e_id :: string
  e_data :: 'a

record ('g, 'a, 'b) Store =
  graph :: 'g
  nodes :: "'a InternalGraphNode list"
  edges :: "'b InternalGraphEdge list"
  draggingId :: "string option"

text \<open>
  A spring's \<open>config\<close>: \<open>{ ...animationConfig, duration: d }\<close>. \<open>animationConfig\<close> is a
  constant of \<open>../utils\<close> and a parameter here (\<open>'cfg\<close>); the \<open>duration\<close> written after the
  spread overrides whatever it holds. \<open>None\<close> is \<open>undefined\<close>: no fixed duration, the spring
  animates.
\<close>

record 'cfg SpringConfig =
  base :: 'cfg
  duration :: "nat option"

record 'cfg OpacitySpring =
  from_lineOpacity :: jsnum
  to_lineOpacity :: "jsnum option"
  opacity_config :: "'cfg SpringConfig"

record 'cfg VertexSpring =
  from_fromVertices :: "jsnum option list"
  from_toVertices :: "jsnum option list"
  to_fromVertices :: "jsnum option list"
  to_toVertices :: "jsnum option list"
  vertex_config :: "'cfg SpringConfig"

text \<open>The first \<open>useSpring\<close> call (lines 47 to 58).\<close>

definition lineOpacitySpring :: "'cfg \<Rightarrow> 'f LineProps \<Rightarrow> 'cfg OpacitySpring" where
  "lineOpacitySpring animationConfig p =
     \<lparr> from_lineOpacity = Num 0,
       to_lineOpacity = opacity p,
       opacity_config =
         \<lparr> base = animationConfig,
           duration = (if truthy_bool (animated p) then None else Some 0) \<rparr> \<rparr>"

text \<open>
  The second \<open>useSpring\<close> call (lines 60 to 89), without its \<open>onChange\<close>, which is
  \<open>onChange\<close> below.
\<close>

definition vertices_of :: "Point3 option \<Rightarrow> jsnum option list" where
  "vertices_of pt =
     [ (case pt of None \<Rightarrow> None | Some q \<Rightarrow> px q),
       (case pt of None \<Rightarrow> None | Some q \<Rightarrow> py q),
       or_zero (case pt of None \<Rightarrow> None | Some q \<Rightarrow> pz q) ]"

definition lineVertexSpring ::
  "'cfg \<Rightarrow> 'f LineProps \<Rightarrow> string option \<Rightarrow> 'cfg VertexSpring" where
  "lineVertexSpring animationConfig p dragging =
     \<lparr> from_fromVertices = [Some (Num 0), Some (Num 0), Some (Num 0)],
       from_toVertices = [Some (Num 0), Some (Num 0), Some (Num 0)],
       to_fromVertices = vertices_of (from_pt (points p)),
       to_toVertices = vertices_of (to_pt (points p)),
       vertex_config =
         \<lparr> base = animationConfig,
           duration =
             (if truthy_bool (animated p) \<and> \<not> truthy_string dragging
              then None else Some 0) \<rparr> \<rparr>"

text \<open>
  What one render of \<open>Line\<close> hands to the spring engine, given the props the parent wrote
  and the store. React resolves \<open>defaultProps\<close> before it calls the component.
\<close>

record 'cfg LineSprings =
  opacitySpring :: "'cfg OpacitySpring"
  vertexSpring :: "'cfg VertexSpring"

definition Line ::
  "'cfg \<Rightarrow> 'f LineProps \<Rightarrow> ('g, 'a, 'b) Store \<Rightarrow> 'cfg LineSprings" where
  "Line animationConfig p st =
     (let q = defaultProps p
      in \<lparr> opacitySpring = lineOpacitySpring animationConfig q,
           vertexSpring = lineVertexSpring animationConfig q (draggingId st) \<rparr>)"

section \<open>Line: the tube geometry built on every spring frame\<close>

text \<open>
  A \<open>TubeBufferGeometry(curve, 20, size / 2, 5, false)\<close>, where \<open>curve\<close> is a
  \<open>CatmullRomCurve3\<close> and is kept as the list of control points it was constructed from.
  \<open>'v\<close> is the vector type of the 3D library.
\<close>

record 'v TubeBufferGeometry =
  tube_path :: "'v list"
  tube_tubularSegments :: nat
  tube_radius :: jsnum
  tube_radialSegments :: nat
  tube_closed :: bool

text \<open>
  The control points of the curve (lines 72 to 78). \<open>Vector3\<close> stands for the library's
  constructor applied to the spread array, \<open>getCurvePoints\<close> for the helper of \<open>../utils\<close>;
  both are parameters. \<open>getCurvePoints\<close> is called whether or not \<open>curved\<close> holds.
\<close>

definition curve_points ::
  "(jsnum option list \<Rightarrow> 'v) \<Rightarrow> ('v \<Rightarrow> 'v \<Rightarrow> 'v list) \<Rightarrow> bool \<Rightarrow>
   jsnum option list \<Rightarrow> jsnum option list \<Rightarrow> 'v list" where
  "curve_points Vector3 getCurvePoints is_curved fromVertices toVertices =
     (let fromVector = Vector3 fromVertices;
          toVector = Vector3 toVertices;
          curvePoints = getCurvePoints fromVector toVector
      in if is_curved then curvePoints else [fromVector, toVector])"

text \<open>
  \<open>onChange\<close> (lines 70 to 82), as the handler that a render with props \<open>p\<close> creates: it
  closes over that render's \<open>curved\<close> and \<open>size\<close>, with \<open>defaultProps\<close> resolved. The new
  geometry is copied into \<open>tubeRef.current\<close>. The ref starts as \<open>null\<close>; calling \<open>copy\<close> on
  it then throws. The library's constructors are taken to return: what they do with
  coordinates that are not finite is outside this model.
\<close>

definition onChange ::
  "(jsnum option list \<Rightarrow> 'v) \<Rightarrow> ('v \<Rightarrow> 'v \<Rightarrow> 'v list) \<Rightarrow> 'f LineProps \<Rightarrow>
   jsnum option list \<times> jsnum option list \<Rightarrow> 'v TubeBufferGeometry option \<Rightarrow>
   error + 'v TubeBufferGeometry" where
  "onChange Vector3 getCurvePoints p event_value tubeRef =
     (let q = defaultProps p;
          curve = curve_points Vector3 getCurvePoints (curved_or_default q)
                    (fst event_value) (snd event_value)
      in case tubeRef of
           None \<Rightarrow> Inl TypeError
         | Some current \<Rightarrow>
             Inr \<lparr> tube_path = curve, tube_tubularSegments = 20,
                   tube_radius = half (size_prop q), tube_radialSegments = 5,
                   tube_closed = False \<rparr>)"

text \<open>
  The 3D library's \<open>Vector3\<close> and its constructor \<open>constructor(x = 0, y = 0, z = 0)\<close>,
  applied to a spread array as in \<open>new Vector3(...fromVertices)\<close>: a default takes over
  where the argument is missing or \<open>undefined\<close>; every other value is stored as it is.
\<close>

record Vector3 =
  vx :: jsnum
  vy :: jsnum
  vz :: jsnum

definition arg_or_zero :: "jsnum option list \<Rightarrow> nat \<Rightarrow> jsnum" where
  "arg_or_zero args i =
     (if i < length args then (case args ! i of None \<Rightarrow> Num 0 | Some v \<Rightarrow> v) else Num 0)"

definition new_Vector3 :: "jsnum option list \<Rightarrow> Vector3" where
  "new_Vector3 args =
     \<lparr> vx = arg_or_zero args 0, vy = arg_or_zero args 1, vz = arg_or_zero args 2 \<rparr>"

section \<open>Line: the endpoint spring across renders\<close>

text \<open>
  The second \<open>useSpring\<close> call takes a function and the dependency list
  \<open>[animated, draggingId, points, size]\<close> (line 88). The function is evaluated at mount and
  again only when an entry of the list changes; between such renders the spring keeps the
  props, and so the \<open>onChange\<close> handler, of the render that declared them. \<open>curved\<close> is not
  in the list. Entries are compared with \<open>Object.is\<close>: by value for the flag, the id and the
  number, by identity for the \<open>points\<close> object, which a render therefore names by an
  object id.
\<close>

type_synonym deps = "bool option \<times> string option \<times> nat \<times> jsnum option"

definition vertex_spring_deps :: "'f LineProps \<Rightarrow> nat \<Rightarrow> ('g, 'a, 'b) Store \<Rightarrow> deps" where
  "vertex_spring_deps p points_id st =
     (let q = defaultProps p in (animated q, draggingId st, points_id, size_prop q))"

text \<open>
  A mounted line: the dependencies and the spring props last declared, and the props of the
  render whose \<open>onChange\<close> is installed.
\<close>

record ('cfg, 'f) MountedLine =
  declared_deps :: deps
  declared_spring :: "'cfg VertexSpring"
  handler_props :: "'f LineProps"

definition mountLine ::
  "'cfg \<Rightarrow> 'f LineProps \<Rightarrow> nat \<Rightarrow> ('g, 'a, 'b) Store \<Rightarrow> ('cfg, 'f) MountedLine" where
  "mountLine animationConfig p points_id st =
     \<lparr> declared_deps = vertex_spring_deps p points_id st,
       declared_spring = vertexSpring (Line animationConfig p st),
       handler_props = p \<rparr>"

definition rerenderLine ::
  "'cfg \<Rightarrow> ('cfg, 'f) MountedLine \<Rightarrow> 'f LineProps \<Rightarrow> nat \<Rightarrow> ('g, 'a, 'b) Store \<Rightarrow>
   ('cfg, 'f) MountedLine" where
  "rerenderLine animationConfig m p points_id st =
     (if vertex_spring_deps p points_id st = declared_deps m then m
      else mountLine animationConfig p points_id st)"

text \<open>A change of the spring's value calls the installed handler.\<close>

definition spring_frame ::
  "(jsnum option list \<Rightarrow> 'v) \<Rightarrow> ('v \<Rightarrow> 'v \<Rightarrow> 'v list) \<Rightarrow> ('cfg, 'f) MountedLine \<Rightarrow>
   jsnum option list \<times> jsnum option list \<Rightarrow> 'v TubeBufferGeometry option \<Rightarrow>
   error + 'v TubeBufferGeometry" where
  "spring_frame Vector3 getCurvePoints m event_value tubeRef =
     onChange Vector3 getCurvePoints (handler_props m) event_value tubeRef"

section \<open>Line: the handlers of the mesh\<close>

text \<open>
  A handler's run is the list of calls it made, in order, and the error that ended it, if
  any. A call names the prop whose function was called and its arguments. The callbacks
  themselves are taken to return.
\<close>

datatype slot = OnClick | OnActive | OnContextMenu | OnPointerOver | OnPointerOut

datatype effect = StopPropagation | Invoke slot "bool list"

record run =
  calls :: "effect list"
  thrown :: "error option"

text \<open>Lines 94 to 97: \<open>onActive(true); onPointerOver?.()\<close>.\<close>

definition mesh_onPointerOver :: "'f LineProps \<Rightarrow> run" where
  "mesh_onPointerOver p =
     (case onActive p of
        None \<Rightarrow> \<lparr> calls = [], thrown = Some TypeError \<rparr>
      | Some f \<Rightarrow>
          \<lparr> calls = Invoke OnActive [True] #
                (case onPointerOver p of None \<Rightarrow> [] | Some g \<Rightarrow> [Invoke OnPointerOver []]),
            thrown = None \<rparr>)"

text \<open>Lines 98 to 101: \<open>onActive(false); onPointerOut?.()\<close>.\<close>

definition mesh_onPointerOut :: "'f LineProps \<Rightarrow> run" where
  "mesh_onPointerOut p =
     (case onActive p of
        None \<Rightarrow> \<lparr> calls = [], thrown = Some TypeError \<rparr>
      | Some f \<Rightarrow>
          \<lparr> calls = Invoke OnActive [False] #
                (case onPointerOut p of None \<Rightarrow> [] | Some g \<Rightarrow> [Invoke OnPointerOut []]),
            thrown = None \<rparr>)"

text \<open>Line 102: \<open>onClick={onClick}\<close>; with no function given there is no handler.\<close>

definition mesh_onClick :: "'f LineProps \<Rightarrow> run" where
  "mesh_onClick p =
     (case onClick p of
        None \<Rightarrow> \<lparr> calls = [], thrown = None \<rparr>
      | Some f \<Rightarrow> \<lparr> calls = [Invoke OnClick []], thrown = None \<rparr>)"

text \<open>
  Lines 103 to 109: on \<open>buttons === 2\<close>, \<open>event.stopPropagation(); onContextMenu()\<close>.
  \<open>buttons\<close> is the bit mask of the pressed buttons.
\<close>

definition mesh_onPointerDown :: "'f LineProps \<Rightarrow> nat \<Rightarrow> run" where
  "mesh_onPointerDown p buttons =
     (if buttons = 2 then
        (case onContextMenu p of
           None \<Rightarrow> \<lparr> calls = [StopPropagation], thrown = Some TypeError \<rparr>
         | Some f \<Rightarrow> \<lparr> calls = [StopPropagation, Invoke OnContextMenu []], thrown = None \<rparr>)
      else \<lparr> calls = [], thrown = None \<rparr>)"

datatype pointer_event = PointerOver | PointerOut | Click | PointerDown nat

definition dispatch :: "'f LineProps \<Rightarrow> pointer_event \<Rightarrow> run" where
  "dispatch p ev =
     (case ev of
        PointerOver \<Rightarrow> mesh_onPointerOver p
      | PointerOut \<Rightarrow> mesh_onPointerOut p
      | Click \<Rightarrow> mesh_onClick p
      | PointerDown buttons \<Rightarrow> mesh_onPointerDown p buttons)"

section \<open>GraphScene\<close>

text \<open>
  \<open>GraphSceneProps\<close>: the props the component destructures by name, and \<open>rest\<close>, which it
  hands to \<open>useGraph\<close> unread. \<open>'t\<close> is the type of a theme.
\<close>

record ('f, 't, 'r) GraphSceneProps =
  onNodeClick :: "'f option"
  onNodeContextMenu :: "'f option"
  onEdgeContextMenu :: "'f option"
  onEdgeClick :: "'f option"
  onEdgePointerOver :: "'f option"
  onEdgePointerOut :: "'f option"
  onNodePointerOver :: "'f option"
  onNodePointerOut :: "'f option"
  contextMenu :: "'f option"
  theme :: 't
  scene_animated :: "bool option"
  disabled :: "bool option"
  draggable :: "bool option"
  edgeLabelPosition :: "string option"
  edgeArrowPosition :: "string option"
  labelFontUrl :: "string option"
  edgeShape :: "string option"
  rest :: 'r

text \<open>The destructuring default \<open>edgeShape = 'line'\<close>.\<close>

definition edgeShape_or_default :: "('f, 't, 'r) GraphSceneProps \<Rightarrow> string" where
  "edgeShape_or_default props = (case edgeShape props of None \<Rightarrow> ''line'' | Some s \<Rightarrow> s)"

text \<open>A \<open><Node ... />\<close> and an \<open><Edge ... />\<close> element: the key and the props written on it.\<close>

record ('f, 't) NodeElement =
  node_key :: string
  node_id :: string
  node_labelFontUrl :: "string option"
  node_draggable :: "bool option"
  node_disabled :: "bool option"
  node_animated :: "bool option"
  node_theme :: 't
  node_contextMenu :: "'f option"
  node_onClick :: "'f option"
  node_onContextMenu :: "'f option"
  node_onPointerOver :: "'f option"
  node_onPointerOut :: "'f option"

record ('f, 't) EdgeElement =
  edge_theme :: 't
  edge_key :: string
  edge_id :: string
  edge_disabled :: "bool option"
  edge_animated :: "bool option"
  edge_curved :: bool
  edge_labelPlacement :: "string option"
  edge_arrowPlacement :: "string option"
  edge_contextMenu :: "'f option"
  edge_onClick :: "'f option"
  edge_onContextMenu :: "'f option"
  edge_onPointerOver :: "'f option"
  edge_onPointerOut :: "'f option"

text \<open>
  Modelled from the spec: \<open>useCenterGraph\<close> and its \<open>centerNodesById\<close> live in
  \<open>./CameraControls\<close>, which is not among the sources. The spec says that \<open>centerGraph()\<close>
  with no arguments centers on all nodes and, with an id list, on the subset. The result
  here is the list of nodes the camera is centered on; \<open>animated\<close> is the option the hook
  is created with.
\<close>

definition centerNodesById ::
  "bool option \<Rightarrow> 'a InternalGraphNode list \<Rightarrow> string list option \<Rightarrow>
   'a InternalGraphNode list" where
  "centerNodesById animated_opt ns ids =
     (case ids of
        None \<Rightarrow> ns
      | Some wanted \<Rightarrow> filter (\<lambda>n. n_id n \<in> set wanted) ns)"

text \<open>\<open>GraphSceneRef\<close>, the object handed to \<open>useImperativeHandle\<close> (lines 358 to 365).\<close>

record ('g, 'a) GraphSceneRef =
  ref_centerGraph :: "string list option \<Rightarrow> 'a InternalGraphNode list"
  ref_graph :: 'g

text \<open>
  What one render of \<open>GraphScene\<close> produces from the props and the store: the handle, and the
  two lists of children of the fragment (lines 348 to 403).
\<close>

record ('f, 't, 'g, 'a) Scene =
  handle :: "('g, 'a) GraphSceneRef"
  node_children :: "('f, 't) NodeElement list"
  edge_children :: "('f, 't) EdgeElement list"

definition GraphScene ::
  "('f, 't, 'r) GraphSceneProps \<Rightarrow> ('g, 'a, 'b) Store \<Rightarrow> ('f, 't, 'g, 'a) Scene" where
  "GraphScene props st =
     (let nodeIds = map n_id (nodes st);
          edgeIds = map e_id (edges st);
          centerGraph = centerNodesById (scene_animated props) (nodes st)
      in \<lparr> handle = \<lparr> ref_centerGraph = centerGraph, ref_graph = graph st \<rparr>,
           node_children =
             map (\<lambda>n. \<lparr> node_key = n, node_id = n,
                         node_labelFontUrl = labelFontUrl props,
                         node_draggable = draggable props,
                         node_disabled = disabled props,
                         node_animated = scene_animated props,
                         node_theme = theme props,
                         node_contextMenu = contextMenu props,
                         node_onClick = onNodeClick props,
                         node_onContextMenu = onNodeContextMenu props,
                         node_onPointerOver = onNodePointerOver props,
                         node_onPointerOut = onNodePointerOut props \<rparr>) nodeIds,
           edge_children =
             map (\<lambda>e. \<lparr> edge_theme = theme props,
                         edge_key = e, edge_id = e,
                         edge_disabled = disabled props,
                         edge_animated = scene_animated props,
                         edge_curved = (edgeShape_or_default props = ''curve''),
                         edge_labelPlacement = edgeLabelPosition props,
                         edge_arrowPlacement = edgeArrowPosition props,
                         edge_contextMenu = contextMenu props,
                         edge_onClick = onEdgeClick props,
                         edge_onContextMenu = onEdgeContextMenu props,
                         edge_onPointerOver = onEdgePointerOver props,
                         edge_onPointerOut = onEdgePointerOut props \<rparr>) edgeIds \<rparr>)"

section \<open>Sample inputs\<close>

text \<open>
  A line from a missing endpoint to \<open>(1, 2)\<close> with no \<open>z\<close>, animated, with no callbacks; and
  the same line with every callback given.
\<close>

definition bare_line :: "string LineProps" where
  "bare_line =
     \<lparr> color = None, size_prop = None, animated = Some True, id_prop = ''e1'',
       opacity = Some (Num 1), curved = None,
       points = \<lparr> from_pt = None,
                  to_pt = Some \<lparr> px = Some (Num 1), py = Some (Num 2), pz = None \<rparr> \<rparr>,
       onClick = None, onActive = None, onContextMenu = None,
       onPointerOver = None, onPointerOut = None \<rparr>"

definition wired_line :: "string LineProps" where
  "wired_line =
     bare_line \<lparr> onClick := Some ''click'', onActive := Some ''active'',
                 onContextMenu := Some ''menu'', onPointerOver := Some ''over'',
                 onPointerOut := Some ''out'' \<rparr>"

text \<open>A store with two nodes and one edge, idle and while node \<open>n1\<close> is dragged.\<close>

definition idle_store :: "(string, unit, unit) Store" where
  "idle_store =
     \<lparr> graph = ''g'',
       nodes = [\<lparr> n_id = ''n1'', n_data = () \<rparr>, \<lparr> n_id = ''n2'', n_data = () \<rparr>],
       edges = [\<lparr> e_id = ''n1->n2'', e_data = () \<rparr>],
       draggingId = None \<rparr>"

definition dragging_store :: "(string, unit, unit) Store" where
  "dragging_store = idle_store \<lparr> draggingId := Some ''n1'' \<rparr>"

text \<open>The geometry a mounted line holds before the first frame.\<close>

definition mounted_tube :: "'v TubeBufferGeometry" where
  "mounted_tube =
     \<lparr> tube_path = [], tube_tubularSegments = 64, tube_radius = Num 1,
       tube_radialSegments = 8, tube_closed = False \<rparr>"

text \<open>
  A line from \<open>(0, 0, 0)\<close> to \<open>(2, 0, 0)\<close> that is not curved, and a helper that puts one
  control point above the middle of the two endpoints' \<open>x\<close>.
\<close>

definition straight_line :: "string LineProps" where
  "straight_line =
     bare_line \<lparr> curved := Some False,
                 points :=
                   \<lparr> from_pt = Some \<lparr> px = Some (Num 0), py = Some (Num 0), pz = Some (Num 0) \<rparr>,
                     to_pt = Some \<lparr> px = Some (Num 2), py = Some (Num 0), pz = Some (Num 0) \<rparr> \<rparr> \<rparr>"

definition sample_curve_helper :: "Vector3 \<Rightarrow> Vector3 \<Rightarrow> Vector3 list" where
  "sample_curve_helper a b = [a, \<lparr> vx = Num 1, vy = Num 1, vz = Num 0 \<rparr>, b]"

definition sample_scene_props :: "(string, string, unit) GraphSceneProps" where
  "sample_scene_props =
     \<lparr> onNodeClick = Some ''nodeClick'', onNodeContextMenu = None,
       onEdgeContextMenu = None, onEdgeClick = Some ''edgeClick'',
       onEdgePointerOver = None, onEdgePointerOut = None,
       onNodePointerOver = None, onNodePointerOut = None,
       contextMenu = None, theme = ''dark'', scene_animated = Some True,
       disabled = Some False, draggable = None,
       edgeLabelPosition = Some ''inline'', edgeArrowPosition = Some ''end'',
       labelFontUrl = None, edgeShape = Some ''curve'', rest = () \<rparr>"

section \<open>Default props\<close>

text \<open>\<open>defaultProps\<close> touches \<open>color\<close>, \<open>size\<close>, \<open>opacity\<close> and \<open>curved\<close> only.\<close>

lemma defaultProps_animated: "animated (defaultProps p) = animated p"
  by (simp add: defaultProps_def)

lemma defaultProps_points: "points (defaultProps p) = points p"
  by (simp add: defaultProps_def)

lemma defaultProps_curved: "curved_or_default (defaultProps p) = curved_or_default p"
  by (simp add: defaultProps_def curved_or_default_def split: option.splits)

lemma defaultProps_size:
  "size_prop (defaultProps p) = Some (case size_prop p of None \<Rightarrow> Num 1 | Some v \<Rightarrow> v)"
  by (simp add: defaultProps_def split: option.splits)

section \<open>Line: the endpoint spring\<close>

text \<open>
  C10. The endpoint spring always starts at the origin: its initial \<open>fromVertices\<close> and
  \<open>toVertices\<close> are both \<open>[0, 0, 0]\<close>, whatever the props (the \<open>points\<close> among them) and
  the store.
\<close>

theorem endpoint_spring_starts_at_origin:
  "from_fromVertices (vertexSpring (Line animationConfig p st))
     = [Some (Num 0), Some (Num 0), Some (Num 0)]
   \<and> from_toVertices (vertexSpring (Line animationConfig p st))
     = [Some (Num 0), Some (Num 0), Some (Num 0)]"
  by (simp add: Line_def lineVertexSpring_def Let_def)

text \<open>
  The endpoint spring animates exactly when \<open>animated\<close> is truthy and \<open>draggingId\<close> is
  falsy. An empty-string id is falsy, so it does not count as a drag.
\<close>

lemma endpoint_duration_cases:
  "duration (vertex_config (vertexSpring (Line animationConfig p st)))
     = (if truthy_bool (animated p) \<and> \<not> truthy_string (draggingId st)
        then None else Some 0)"
  by (simp add: Line_def lineVertexSpring_def Let_def defaultProps_animated)

lemma empty_dragging_id_still_animates:
  "duration (vertex_config (vertexSpring
      (Line () bare_line (idle_store \<lparr> draggingId := Some [] \<rparr>)))) = None"
  by (simp add: Line_def lineVertexSpring_def Let_def defaultProps_animated bare_line_def
      truthy_bool_def truthy_string_def)

text \<open>
  C1. While a drag is in progress the endpoint spring has duration 0, for every value of
  \<open>animated\<close>. The source tests \<open>!draggingId\<close>, so a drag is in progress when \<open>draggingId\<close>
  holds a truthy value: a node id other than the empty string.
\<close>

theorem drag_makes_endpoint_updates_immediate:
  "truthy_string (draggingId st) \<Longrightarrow>
   duration (vertex_config (vertexSpring (Line animationConfig p st))) = Some 0"
  by (simp add: Line_def lineVertexSpring_def Let_def)

theorem drag_makes_endpoint_updates_immediate_witness:
  "truthy_string (draggingId dragging_store) \<and> animated bare_line = Some True
   \<and> duration (vertex_config (vertexSpring (Line () bare_line dragging_store))) = Some 0"
proof -
  have d: "truthy_string (draggingId dragging_store)"
    by (simp add: dragging_store_def idle_store_def truthy_string_def)
  from drag_makes_endpoint_updates_immediate [OF d, of "()" bare_line] d
  show ?thesis by (simp add: bare_line_def)
qed

text \<open>
  The target array of a missing endpoint: \<open>z\<close> falls back to 0 by \<open>|| 0\<close>; \<open>x\<close> and \<open>y\<close> are
  read through \<open>?.\<close> and are \<open>undefined\<close>. Nothing is thrown.
\<close>

lemma target_vertices_of_a_missing_endpoint:
  "(from_pt (points p) = None \<longrightarrow>
      to_fromVertices (vertexSpring (Line animationConfig p st)) = [None, None, Some (Num 0)])
   \<and> (to_pt (points p) = None \<longrightarrow>
      to_toVertices (vertexSpring (Line animationConfig p st)) = [None, None, Some (Num 0)])"
  by (simp add: Line_def lineVertexSpring_def Let_def defaultProps_points vertices_of_def
      or_zero_def truthy_num_def)

lemma new_Vector3_of_undefined:
  "new_Vector3 [None, None, Some (Num 0)] = \<lparr> vx = Num 0, vy = Num 0, vz = Num 0 \<rparr>"
  by (simp add: new_Vector3_def arg_or_zero_def)

text \<open>
  C3. Where an endpoint of \<open>points\<close> is missing, the line treats it as the origin when it
  computes the tube geometry from the target vertices: the vector that \<open>onChange\<close> constructs
  from that endpoint's target array is \<open>(0, 0, 0)\<close>, and it is this vector that goes into
  the curve, whether the line is curved (then as the argument of \<open>getCurvePoints\<close>) or not.
\<close>

theorem missing_endpoint_is_the_origin:
  "(from_pt (points p) = None \<longrightarrow>
      new_Vector3 (to_fromVertices (vertexSpring (Line animationConfig p st)))
        = \<lparr> vx = Num 0, vy = Num 0, vz = Num 0 \<rparr>
      \<and> curve_points new_Vector3 getCurvePoints is_curved
          (to_fromVertices (vertexSpring (Line animationConfig p st))) toVertices
        = (if is_curved
           then getCurvePoints \<lparr> vx = Num 0, vy = Num 0, vz = Num 0 \<rparr> (new_Vector3 toVertices)
           else [\<lparr> vx = Num 0, vy = Num 0, vz = Num 0 \<rparr>, new_Vector3 toVertices]))
   \<and> (to_pt (points p) = None \<longrightarrow>
      new_Vector3 (to_toVertices (vertexSpring (Line animationConfig p st)))
        = \<lparr> vx = Num 0, vy = Num 0, vz = Num 0 \<rparr>
      \<and> curve_points new_Vector3 getCurvePoints is_curved fromVertices
          (to_toVertices (vertexSpring (Line animationConfig p st)))
        = (if is_curved
           then getCurvePoints (new_Vector3 fromVertices) \<lparr> vx = Num 0, vy = Num 0, vz = Num 0 \<rparr>
           else [new_Vector3 fromVertices, \<lparr> vx = Num 0, vy = Num 0, vz = Num 0 \<rparr>]))"
proof -
  have f: "from_pt (points p) = None \<Longrightarrow>
      to_fromVertices (vertexSpring (Line animationConfig p st)) = [None, None, Some (Num 0)]"
    using target_vertices_of_a_missing_endpoint [of p animationConfig st] by simp
  have t: "to_pt (points p) = None \<Longrightarrow>
      to_toVertices (vertexSpring (Line animationConfig p st)) = [None, None, Some (Num 0)]"
    using target_vertices_of_a_missing_endpoint [of p animationConfig st] by simp
  show ?thesis
    by (simp add: f t new_Vector3_of_undefined curve_points_def Let_def)
qed

theorem missing_endpoint_is_the_origin_witness:
  "from_pt (points bare_line) = None
   \<and> new_Vector3 (to_fromVertices (vertexSpring (Line () bare_line idle_store)))
       = \<lparr> vx = Num 0, vy = Num 0, vz = Num 0 \<rparr>
   \<and> curve_points new_Vector3 sample_curve_helper False
         (to_fromVertices (vertexSpring (Line () bare_line idle_store)))
         (to_toVertices (vertexSpring (Line () bare_line idle_store)))
       = [\<lparr> vx = Num 0, vy = Num 0, vz = Num 0 \<rparr>, \<lparr> vx = Num 1, vy = Num 2, vz = Num 0 \<rparr>]
   \<and> to_pt (points (bare_line \<lparr> points := \<lparr> from_pt = None, to_pt = None \<rparr> \<rparr>)) = None
   \<and> new_Vector3 (to_toVertices (vertexSpring (Line ()
         (bare_line \<lparr> points := \<lparr> from_pt = None, to_pt = None \<rparr> \<rparr>) idle_store)))
       = \<lparr> vx = Num 0, vy = Num 0, vz = Num 0 \<rparr>"
proof -
  have f: "from_pt (points bare_line) = None"
    by (simp add: bare_line_def)
  have t: "to_pt (points (bare_line \<lparr> points := \<lparr> from_pt = None, to_pt = None \<rparr> \<rparr>)) = None"
    by simp
  have tv: "new_Vector3 (to_toVertices (vertexSpring (Line () bare_line idle_store)))
      = \<lparr> vx = Num 1, vy = Num 2, vz = Num 0 \<rparr>"
    by (simp add: Line_def lineVertexSpring_def Let_def defaultProps_points bare_line_def
        vertices_of_def or_zero_def truthy_num_def new_Vector3_def arg_or_zero_def)
  from missing_endpoint_is_the_origin
      [of bare_line "()" idle_store sample_curve_helper False
         "to_toVertices (vertexSpring (Line () bare_line idle_store))"]
    missing_endpoint_is_the_origin
      [of "bare_line \<lparr> points := \<lparr> from_pt = None, to_pt = None \<rparr> \<rparr>" "()" idle_store]
    f t tv
  show ?thesis by simp
qed

section \<open>Line: the opacity spring\<close>

text \<open>
  C6, as the spec states it: opacity is immediate (duration 0) whenever a drag is in
  progress. It is not: for the animated sample line, while node \<open>n1\<close> is dragged, the
  opacity spring has no fixed duration.
\<close>

theorem opacity_immediate_while_dragging_counterexample:
  "truthy_string (draggingId dragging_store)
   \<and> duration (opacity_config (opacitySpring (Line () bare_line dragging_store))) \<noteq> Some 0"
  by (simp add: dragging_store_def idle_store_def truthy_string_def truthy_bool_def
      bare_line_def Line_def lineOpacitySpring_def Let_def defaultProps_animated)

text \<open>
  C6, amended. The opacity spring animates (no fixed duration) when \<open>animated\<close> is truthy
  and is immediate (duration 0) otherwise, whatever the store holds: the drag state makes
  endpoint movement immediate, not opacity.
\<close>

theorem opacity_duration_follows_animated_only:
  "duration (opacity_config (opacitySpring (Line animationConfig p st)))
     = (if truthy_bool (animated p) then None else Some 0)"
  by (simp add: Line_def lineOpacitySpring_def Let_def defaultProps_animated)

section \<open>Line: the curve of the tube\<close>

text \<open>
  C4. With \<open>curved\<close> false, the curve of the geometry that \<open>onChange\<close> builds is constructed
  from exactly the two endpoint vectors, in order, whatever \<open>getCurvePoints\<close> returns. (That
  a curve through two control points is the straight segment between them is the 3D
  library's part.)
\<close>

theorem straight_line_uses_exactly_the_two_endpoints:
  "\<not> curved_or_default p \<Longrightarrow>
   \<exists>g. onChange Vector3 getCurvePoints p (fromVertices, toVertices) (Some current) = Inr g
       \<and> tube_path g = [Vector3 fromVertices, Vector3 toVertices]"
  by (simp add: onChange_def curve_points_def Let_def defaultProps_curved)

theorem straight_line_uses_exactly_the_two_endpoints_witness:
  "\<not> curved_or_default bare_line
   \<and> (\<exists>g. onChange id (\<lambda>a b. [a, [], b]) bare_line
             ([Some (Num 0), Some (Num 0), Some (Num 0)],
              [Some (Num 1), Some (Num 2), Some (Num 0)]) (Some mounted_tube) = Inr g
          \<and> tube_path g = [[Some (Num 0), Some (Num 0), Some (Num 0)],
                           [Some (Num 1), Some (Num 2), Some (Num 0)]])"
proof -
  have h: "\<not> curved_or_default bare_line"
    by (simp add: curved_or_default_def bare_line_def)
  from straight_line_uses_exactly_the_two_endpoints
    [OF h, of id "\<lambda>a b. [a, [], b]"
       "[Some (Num 0), Some (Num 0), Some (Num 0)]"
       "[Some (Num 1), Some (Num 2), Some (Num 0)]" mounted_tube] h
  show ?thesis by simp
qed

text \<open>
  A handler installed by a render with \<open>curved\<close> true builds the curve from exactly the
  control points that \<open>getCurvePoints\<close> returns for the two endpoint vectors.
\<close>

lemma curved_handler_uses_getCurvePoints:
  "curved_or_default p \<Longrightarrow>
   \<exists>g. spring_frame Vector3 getCurvePoints (mountLine animationConfig p points_id st)
          (fromVertices, toVertices) (Some current) = Inr g
       \<and> tube_path g = getCurvePoints (Vector3 fromVertices) (Vector3 toVertices)"
  by (simp add: spring_frame_def mountLine_def onChange_def curve_points_def Let_def
      defaultProps_curved)

text \<open>
  A render that changes \<open>curved\<close> alone leaves the dependencies as they were, so the
  mounted line, and with it the installed handler, stays the one of the earlier render.
\<close>

lemma deps_do_not_read_curved:
  "vertex_spring_deps (p \<lparr> curved := c \<rparr>) points_id st = vertex_spring_deps p points_id st"
  by (simp add: vertex_spring_deps_def defaultProps_def Let_def)

lemma toggling_curved_alone_keeps_the_handler:
  "rerenderLine animationConfig (mountLine animationConfig p points_id st)
     (p \<lparr> curved := c \<rparr>) points_id st
   = mountLine animationConfig p points_id st"
  by (simp add: rerenderLine_def deps_do_not_read_curved)
    (simp add: mountLine_def)

lemma stale_handler_builds_the_straight_path:
  "\<not> curved_or_default p \<Longrightarrow>
   \<exists>g. spring_frame Vector3 getCurvePoints
          (rerenderLine animationConfig (mountLine animationConfig p points_id st)
             (p \<lparr> curved := Some True \<rparr>) points_id st)
          (fromVertices, toVertices) (Some current) = Inr g
       \<and> tube_path g = [Vector3 fromVertices, Vector3 toVertices]"
  by (simp add: toggling_curved_alone_keeps_the_handler)
    (simp add: spring_frame_def mountLine_def onChange_def curve_points_def Let_def
      defaultProps_curved)

text \<open>
  C5. Toggling \<open>curved\<close> from false to true is to make the path run through the control
  points of \<open>getCurvePoints\<close>. The code does not do that: the sample line, mounted straight
  and then rendered again with \<open>curved\<close> true and everything else as before (the same
  \<open>points\<close> object among it), still builds the two-point path on the next frame of its
  spring, where a line mounted with \<open>curved\<close> true builds the path through the helper's
  control point.
\<close>

theorem toggling_curved_alone_leaves_the_path_straight:
  "spring_frame new_Vector3 sample_curve_helper
     (rerenderLine () (mountLine () straight_line 1 idle_store)
        (straight_line \<lparr> curved := Some True \<rparr>) 1 idle_store)
     ([Some (Num 0), Some (Num 0), Some (Num 0)], [Some (Num 2), Some (Num 0), Some (Num 0)])
     (Some mounted_tube)
   = Inr \<lparr> tube_path = [\<lparr> vx = Num 0, vy = Num 0, vz = Num 0 \<rparr>,
                        \<lparr> vx = Num 2, vy = Num 0, vz = Num 0 \<rparr>],
           tube_tubularSegments = 20, tube_radius = Num (1 / 2), tube_radialSegments = 5,
           tube_closed = False \<rparr>
   \<and> spring_frame new_Vector3 sample_curve_helper
     (mountLine () (straight_line \<lparr> curved := Some True \<rparr>) 1 idle_store)
     ([Some (Num 0), Some (Num 0), Some (Num 0)], [Some (Num 2), Some (Num 0), Some (Num 0)])
     (Some mounted_tube)
   = Inr \<lparr> tube_path = [\<lparr> vx = Num 0, vy = Num 0, vz = Num 0 \<rparr>,
                        \<lparr> vx = Num 1, vy = Num 1, vz = Num 0 \<rparr>,
                        \<lparr> vx = Num 2, vy = Num 0, vz = Num 0 \<rparr>],
           tube_tubularSegments = 20, tube_radius = Num (1 / 2), tube_radialSegments = 5,
           tube_closed = False \<rparr>"
  by (simp add: toggling_curved_alone_keeps_the_handler)
    (simp add: spring_frame_def mountLine_def onChange_def curve_points_def Let_def
      defaultProps_def curved_or_default_def straight_line_def bare_line_def half_def
      new_Vector3_def arg_or_zero_def sample_curve_helper_def)

section \<open>Line: pointer events\<close>

text \<open>
  C2. On a line that was given an \<open>onContextMenu\<close> callback, a pointer-down calls the
  callback and stops propagation if and only if \<open>buttons\<close> is 2; the handler never calls
  \<open>onClick\<close>, and it does not throw.
\<close>

theorem right_button_down_opens_context_menu:
  "onContextMenu p \<noteq> None \<Longrightarrow>
   (Invoke OnContextMenu [] \<in> set (calls (dispatch p (PointerDown buttons)))
      \<longleftrightarrow> buttons = 2)
   \<and> (StopPropagation \<in> set (calls (dispatch p (PointerDown buttons)))
      \<longleftrightarrow> buttons = 2)
   \<and> (\<forall>args. Invoke OnClick args \<notin> set (calls (dispatch p (PointerDown buttons))))
   \<and> thrown (dispatch p (PointerDown buttons)) = None"
  by (auto simp: dispatch_def mesh_onPointerDown_def)

theorem right_button_down_opens_context_menu_witness:
  "onContextMenu wired_line \<noteq> None
   \<and> Invoke OnContextMenu [] \<in> set (calls (dispatch wired_line (PointerDown 2)))
   \<and> StopPropagation \<in> set (calls (dispatch wired_line (PointerDown 2)))
   \<and> Invoke OnClick [] \<notin> set (calls (dispatch wired_line (PointerDown 2)))
   \<and> thrown (dispatch wired_line (PointerDown 2)) = None"
proof -
  have h: "onContextMenu wired_line \<noteq> None"
    by (simp add: wired_line_def bare_line_def)
  from right_button_down_opens_context_menu [OF h, of 2] h
  show ?thesis by simp
qed

text \<open>
  C9. \<open>onActive\<close> and \<open>onContextMenu\<close> are optional props that the handlers call without
  a guard. A handler throws a \<open>TypeError\<close> exactly when the event is a pointer-over or a
  pointer-out and \<open>onActive\<close> is missing, or a pointer-down with \<open>buttons\<close> 2 and
  \<open>onContextMenu\<close> is missing; the sample line with no callbacks reaches each of the three.
\<close>

theorem unguarded_callbacks_throw:
  "thrown (dispatch p ev) = Some TypeError \<longleftrightarrow>
     ((ev = PointerOver \<or> ev = PointerOut) \<and> onActive p = None)
     \<or> (ev = PointerDown 2 \<and> onContextMenu p = None)"
  by (cases ev)
    (auto simp: dispatch_def mesh_onPointerOver_def mesh_onPointerOut_def mesh_onClick_def
      mesh_onPointerDown_def split: option.splits)

theorem unguarded_callbacks_throw_witness:
  "onActive bare_line = None \<and> onContextMenu bare_line = None
   \<and> thrown (dispatch bare_line PointerOver) = Some TypeError
   \<and> thrown (dispatch bare_line PointerOut) = Some TypeError
   \<and> thrown (dispatch bare_line (PointerDown 2)) = Some TypeError"
  using unguarded_callbacks_throw [of bare_line PointerOver]
    unguarded_callbacks_throw [of bare_line PointerOut]
    unguarded_callbacks_throw [of bare_line "PointerDown 2"]
  by (simp add: bare_line_def)

section \<open>GraphScene: children and handle\<close>

text \<open>
  C7. For every store state the scene has one \<open>Node\<close> per entry of the store's node list
  and one \<open>Edge\<close> per entry of its edge list, in order, each with that entry's id as \<open>key\<close>
  and as \<open>id\<close>. Every node gets the scene's \<open>theme\<close>, \<open>animated\<close> and \<open>disabled\<close>; every
  edge gets these and the label and arrow placement.
\<close>

theorem scene_renders_one_primitive_per_id:
  "map node_key (node_children (GraphScene props st)) = map n_id (nodes st)
   \<and> map node_id (node_children (GraphScene props st)) = map n_id (nodes st)
   \<and> map edge_key (edge_children (GraphScene props st)) = map e_id (edges st)
   \<and> map edge_id (edge_children (GraphScene props st)) = map e_id (edges st)
   \<and> (\<forall>el \<in> set (node_children (GraphScene props st)).
         node_theme el = theme props \<and> node_animated el = scene_animated props
         \<and> node_disabled el = disabled props)
   \<and> (\<forall>el \<in> set (edge_children (GraphScene props st)).
         edge_theme el = theme props \<and> edge_animated el = scene_animated props
         \<and> edge_disabled el = disabled props
         \<and> edge_labelPlacement el = edgeLabelPosition props
         \<and> edge_arrowPlacement el = edgeArrowPosition props)"
  by (auto simp: GraphScene_def Let_def comp_def)

theorem scene_renders_one_primitive_per_id_witness:
  "map node_key (node_children (GraphScene sample_scene_props idle_store)) = [''n1'', ''n2'']
   \<and> map node_id (node_children (GraphScene sample_scene_props idle_store)) = [''n1'', ''n2'']
   \<and> map edge_key (edge_children (GraphScene sample_scene_props idle_store)) = [''n1->n2'']
   \<and> map edge_id (edge_children (GraphScene sample_scene_props idle_store)) = [''n1->n2'']
   \<and> map node_theme (node_children (GraphScene sample_scene_props idle_store))
       = [''dark'', ''dark'']
   \<and> map edge_labelPlacement (edge_children (GraphScene sample_scene_props idle_store))
       = [Some ''inline'']"
  using scene_renders_one_primitive_per_id [of sample_scene_props idle_store]
  by (simp add: GraphScene_def sample_scene_props_def idle_store_def)

text \<open>
  C8. The handle holds the store's graph object and a \<open>centerGraph\<close> function: called with
  no argument it centers on all nodes of the store, called with an id list it centers on
  exactly the nodes whose id is in the list.
\<close>

theorem handle_exposes_graph_and_centerGraph:
  "ref_graph (handle (GraphScene props st)) = graph st
   \<and> ref_centerGraph (handle (GraphScene props st)) None = nodes st
   \<and> set (ref_centerGraph (handle (GraphScene props st)) (Some ids))
       = {n \<in> set (nodes st). n_id n \<in> set ids}"
  by (auto simp: GraphScene_def Let_def centerNodesById_def)

end
